theory Spec2Isabelle
  imports Main
begin

section \<open>JavaScript values the handlers test\<close>

text \<open>
  The handlers of \<^verbatim>\<open>electron.js\<close> and \<^verbatim>\<open>EmbeddedBrowser.js\<close> decide everything with
  three library operations: \<^verbatim>\<open>String.prototype.includes\<close>, the truthiness of a looked-up
  parameter, and a URL parser. Strings are byte strings (\<open>string\<close>); URLs as the engine
  hands them over are ASCII. The two URL parsers are not code of the repository: the
  handlers take them as a parameter, and the theorems hold for whatever they return or
  throw.
\<close>

text \<open>\<^verbatim>\<open>s.includes(pat)\<close>: \<open>pat\<close> occurs in \<open>s\<close> as a contiguous run of characters.\<close>

fun js_includes :: "string \<Rightarrow> string \<Rightarrow> bool" where
  "js_includes [] pat = (pat = [])"
| "js_includes (c # cs) pat = (take (length pat) (c # cs) = pat \<or> js_includes cs pat)"

text \<open>
  The values a parameter lookup can give: a property of the object that
  \<^verbatim>\<open>querystring.parse\<close> builds is absent (\<open>Undefined\<close>), a string, or an array of strings
  when the name is repeated; \<^verbatim>\<open>URLSearchParams.get\<close> gives \<open>Null\<close> or a string.
  \<open>truthy\<close> is JavaScript's conversion to a boolean in \<^verbatim>\<open>a || b\<close> and \<^verbatim>\<open>if (a)\<close>:
  the empty string is falsy, every array is truthy.
\<close>

datatype js_value = Undefined | Null | JString string | JArray "string list"

fun truthy :: "js_value \<Rightarrow> bool" where
  "truthy Undefined = False"
| "truthy Null = False"
| "truthy (JString s) = (s \<noteq> [])"
| "truthy (JArray vs) = True"

section \<open>Query strings\<close>

text \<open>
  Both \<^verbatim>\<open>querystring.parse\<close> (Node) and \<^verbatim>\<open>URLSearchParams\<close> (WHATWG) cut the text at
  \<^verbatim>\<open>&\<close>, skip empty pieces, cut each piece at its first \<^verbatim>\<open>=\<close>, turn \<^verbatim>\<open>+\<close> into a space
  and decode \<^verbatim>\<open>%XX\<close>. The decoded bytes are kept as they are: the handlers only compare
  names with ASCII words and test values for emptiness, which decoding the bytes as
  UTF-8 does not change.
\<close>

fun split_on :: "char \<Rightarrow> string \<Rightarrow> string list" where
  "split_on sep [] = [[]]"
| "split_on sep (c # cs) =
     (if c = sep then [] # split_on sep cs
      else (case split_on sep cs of [] \<Rightarrow> [[c]] | s # ss \<Rightarrow> (c # s) # ss))"

definition hex_digit :: "char \<Rightarrow> int option" where
  "hex_digit c =
     (let n = (of_char c :: int) in
      if 48 \<le> n \<and> n \<le> 57 then Some (n - 48)
      else if 65 \<le> n \<and> n \<le> 70 then Some (n - 55)
      else if 97 \<le> n \<and> n \<le> 102 then Some (n - 87)
      else None)"

fun percent_decode :: "string \<Rightarrow> string" where
  "percent_decode (c # h # l # cs) =
     (if c = CHR ''%'' then
        (case (hex_digit h, hex_digit l) of
           (Some a, Some b) \<Rightarrow> char_of (16 * a + b) # percent_decode cs
         | _ \<Rightarrow> c # percent_decode (h # l # cs))
      else c # percent_decode (h # l # cs))"
| "percent_decode cs = cs"

definition form_decode :: "string \<Rightarrow> string" where
  "form_decode s = percent_decode (map (\<lambda>c. if c = CHR ''+'' then CHR '' '' else c) s)"

definition parse_pair :: "string \<Rightarrow> string \<times> string" where
  "parse_pair seg =
     (form_decode (takeWhile (\<lambda>c. c \<noteq> CHR ''='') seg),
      form_decode (case dropWhile (\<lambda>c. c \<noteq> CHR ''='') seg of [] \<Rightarrow> [] | eq # v \<Rightarrow> v))"

definition parse_pairs :: "string list \<Rightarrow> (string \<times> string) list" where
  "parse_pairs segs = map parse_pair (filter (\<lambda>seg. seg \<noteq> []) segs)"

text \<open>
  \<^verbatim>\<open>querystring.parse(qs)\<close> with its default \<^verbatim>\<open>maxKeys\<close> of 1000: pieces after the
  thousandth are not read. The result is an object; \<open>query_prop\<close> reads one property of it.
\<close>

definition querystring_parse :: "string \<Rightarrow> (string \<times> string) list" where
  "querystring_parse qs = parse_pairs (take 1000 (split_on CHR ''&'' qs))"

definition query_prop :: "(string \<times> string) list \<Rightarrow> string \<Rightarrow> js_value" where
  "query_prop q name =
     (case map snd (filter (\<lambda>p. fst p = name) q) of
        [] \<Rightarrow> Undefined
      | [v] \<Rightarrow> JString v
      | v # w # vs \<Rightarrow> JArray (v # w # vs))"

text \<open>
  \<^verbatim>\<open>new URLSearchParams(init)\<close> drops one leading \<^verbatim>\<open>?\<close>; \<^verbatim>\<open>get(name)\<close> gives the value of
  the first pair of that name, or null.
\<close>

definition URLSearchParams :: "string \<Rightarrow> (string \<times> string) list" where
  "URLSearchParams init =
     parse_pairs (split_on CHR ''&''
       (case init of [] \<Rightarrow> [] | c # cs \<Rightarrow> if c = CHR ''?'' then cs else c # cs))"

definition params_get :: "(string \<times> string) list \<Rightarrow> string \<Rightarrow> js_value" where
  "params_get ps name = (case map_of ps name of None \<Rightarrow> Null | Some v \<Rightarrow> JString v)"

section \<open>The two URL parsers, as the handlers use them\<close>

text \<open>
  The main process calls Node's legacy \<^verbatim>\<open>url.parse(u, true)\<close> and reads only the
  \<^verbatim>\<open>.query\<close> object of the result; the call can throw (a \<^verbatim>\<open>URIError\<close> when the user-info
  part of the URL cannot be decoded). The component calls the WHATWG constructor
  \<^verbatim>\<open>new URL(s)\<close> and reads \<^verbatim>\<open>.search\<close> and \<^verbatim>\<open>.hash\<close>; the constructor throws a
  \<^verbatim>\<open>TypeError\<close> on a text it rejects. A parser is a function from the text to the
  exception it throws (\<open>Inl\<close>) or the value it returns (\<open>Inr\<close>).
\<close>

datatype js_error = TypeError | URIError

type_synonym query_object = "(string \<times> string) list"

record url_object =
  search :: string
  hash :: string

type_synonym url_parse_fn = "string \<Rightarrow> js_error + query_object"

type_synonym url_ctor_fn = "string \<Rightarrow> js_error + url_object"

text \<open>How a listener ends: it returns, or an exception leaves it uncaught.\<close>

datatype 'a outcome = Returned 'a | Raised js_error

section \<open>The embedded browser component\<close>

text \<open>
  The state of one \<^verbatim>\<open>EmbeddedBrowser\<close> component (its \<^verbatim>\<open>useState\<close> cells). The session
  state of the navigation policy is the flag \<open>authInProgress\<close>: \<open>False\<close> is Idle,
  \<open>True\<close> is AuthPending.
\<close>

record browser_state =
  currentUrl :: string
  title :: string
  isLoading :: bool
  canGoBack :: bool
  canGoForward :: bool
  isWebviewReady :: bool
  authInProgress :: bool

datatype session = Idle | AuthPending

definition session_of :: "browser_state \<Rightarrow> session" where
  "session_of st = (if authInProgress st then AuthPending else Idle)"

text \<open>
  What a handler does besides updating the state, in the order the source does it.
  Console output is kept by its label only.
\<close>

record history_entry =
  url :: string
  timestamp :: string
  batchId :: "nat option"

datatype effect =
    ConsoleLog string
  | ConsoleError string
  | PreventDefault
  | LoadURL string
  | IpcSend string history_entry
  | WebContentsSend string string
  | ShowMessageBox string string
  | LaunchExternalBrowser string
  | OnNavigate string
  | ExecuteJavaScript
  | UncaughtException js_error

text \<open>
  The \<^verbatim>\<open>webview\<close> element as the listeners see it when an event arrives, and the
  properties the component was given. \<open>loadURLThrows\<close> says whether the call
  \<^verbatim>\<open>webview.loadURL(url)\<close> raises; every call site catches that.
\<close>

record webview =
  getURL :: string
  getTitle :: string
  webviewCanGoBack :: bool
  webviewCanGoForward :: bool
  hasLoadURL :: bool
  loadURLThrows :: bool

record component_props =
  propBatchId :: "nat option"
  hasOnNavigate :: bool

text \<open>
  \<^verbatim>\<open>handleDidStopLoading\<close> (the \<^verbatim>\<open>did-stop-loading\<close> listener). \<open>now\<close> is
  \<^verbatim>\<open>new Date().toISOString()\<close> at that moment, \<open>newURL\<close> the URL constructor. The
  \<^verbatim>\<open>try\<close> block is the \<open>case\<close> on the constructor's result: its \<^verbatim>\<open>catch\<close> logs and
  goes on to the history message.
\<close>

definition handleDidStopLoading ::
  "url_ctor_fn \<Rightarrow> component_props \<Rightarrow> webview \<Rightarrow> string \<Rightarrow> browser_state
     \<Rightarrow> browser_state \<times> effect list" where
  "handleDidStopLoading newURL props wv now st =
     (let st1 = st\<lparr>isLoading := False\<rparr>;
          finalUrl = getURL wv;
          logUrlOpened = IpcSend ''log-url-opened''
            \<lparr>url = getURL wv, timestamp = now, batchId = propBatchId props\<rparr>
      in
      if authInProgress st \<and>
         (js_includes finalUrl ''callback'' \<or>
          js_includes finalUrl ''token'' \<or>
          js_includes finalUrl ''auth'' \<or>
          js_includes finalUrl ''code'' \<or>
          js_includes finalUrl ''access_token'')
      then
        (case newURL finalUrl of
           Inl e \<Rightarrow>
             (st1, [ConsoleLog ''Potential OAuth callback URL:'',
                    ConsoleError ''Error parsing auth URL:'', logUrlOpened])
         | Inr urlObj \<Rightarrow>
             (let params = URLSearchParams (search urlObj);
                  hashParams = URLSearchParams (if hash urlObj \<noteq> [] then drop 1 (hash urlObj) else [])
              in
              if truthy (params_get params ''code'') \<or> truthy (params_get params ''token'') \<or>
                 truthy (params_get params ''access_token'') \<or>
                 truthy (params_get hashParams ''access_token'')
              then
                (st1\<lparr>authInProgress := False\<rparr>,
                 [ConsoleLog ''Potential OAuth callback URL:'',
                  ConsoleLog ''Auth token detected in URL'', logUrlOpened])
              else (st1, [ConsoleLog ''Potential OAuth callback URL:'', logUrlOpened])))
      else (st1, [logUrlOpened]))"

text \<open>\<^verbatim>\<open>handleDidFinishLoad\<close> (the \<^verbatim>\<open>did-finish-load\<close> listener).\<close>

definition handleDidFinishLoad ::
  "component_props \<Rightarrow> webview \<Rightarrow> browser_state \<Rightarrow> browser_state \<times> effect list" where
  "handleDidFinishLoad props wv st =
     (st\<lparr>title := getTitle wv, canGoBack := webviewCanGoBack wv,
         canGoForward := webviewCanGoForward wv, currentUrl := getURL wv\<rparr>,
      (if hasOnNavigate props then [OnNavigate (getURL wv)] else []) @ [ExecuteJavaScript])"

text \<open>\<^verbatim>\<open>handleWillNavigate\<close> (the webview's \<^verbatim>\<open>will-navigate\<close> listener).\<close>

definition handleWillNavigate :: "browser_state \<Rightarrow> string \<Rightarrow> browser_state \<times> effect list" where
  "handleWillNavigate st u =
     (let st1 = st\<lparr>currentUrl := u\<rparr> in
      if js_includes u ''oauth'' \<or>
         js_includes u ''auth'' \<or>
         js_includes u ''login'' \<or>
         js_includes u ''sso''
      then (st1\<lparr>authInProgress := True\<rparr>,
            [ConsoleLog ''Will navigate to:'', ConsoleLog ''Navigating to potential auth URL''])
      else (st1, [ConsoleLog ''Will navigate to:'']))"

text \<open>\<^verbatim>\<open>handleNewWindow\<close> (the webview's \<^verbatim>\<open>new-window\<close> listener).\<close>

definition handleNewWindow :: "webview \<Rightarrow> browser_state \<Rightarrow> string \<Rightarrow> browser_state \<times> effect list" where
  "handleNewWindow wv st u =
     (if js_includes u ''auth'' \<or>
         js_includes u ''login'' \<or>
         js_includes u ''sso'' \<or>
         js_includes u ''oauth'' \<or>
         js_includes u ''callback''
      then
        (let st1 = st\<lparr>authInProgress := True\<rparr>;
             logs = [PreventDefault, ConsoleLog ''New window requested for URL:'',
                     ConsoleLog ''Auth URL detected in new window request'']
         in
         if hasLoadURL wv then
           (if loadURLThrows wv
            then (st1, logs @ [LoadURL u, ConsoleError ''Error loading new window URL:''])
            else (st1\<lparr>currentUrl := u\<rparr>, logs @ [LoadURL u]))
         else (st1, logs))
      else (st, [PreventDefault, ConsoleLog ''New window requested for URL:'']))"

text \<open>
  \<^verbatim>\<open>handleAuthRedirect\<close>, the listener for the main process's
  \<^verbatim>\<open>handle-auth-redirect\<close> message. \<^verbatim>\<open>webviewRef.current\<close> may be null.
\<close>

definition handleAuthRedirect ::
  "webview option \<Rightarrow> browser_state \<Rightarrow> string \<Rightarrow> browser_state \<times> effect list" where
  "handleAuthRedirect webviewRef st redirectUrl =
     (let st1 = st\<lparr>authInProgress := True\<rparr> in
      case webviewRef of
        None \<Rightarrow> (st1, [ConsoleLog ''Auth redirect received:''])
      | Some wv \<Rightarrow>
          if isWebviewReady st \<and> hasLoadURL wv then
            (if loadURLThrows wv
             then (st1, [ConsoleLog ''Auth redirect received:'', LoadURL redirectUrl,
                         ConsoleError ''Error loading redirect URL:''])
             else (st1\<lparr>currentUrl := redirectUrl\<rparr>,
                   [ConsoleLog ''Auth redirect received:'', LoadURL redirectUrl]))
          else (st1, [ConsoleLog ''Auth redirect received:'']))"

text \<open>
  \<^verbatim>\<open>handleLoadFailed\<close> (the \<^verbatim>\<open>did-fail-load\<close> listener). \<open>-3\<close> is \<^verbatim>\<open>ERR_ABORTED\<close>.
  The failure is shown to the user through the title bar.
\<close>

definition handleLoadFailed :: "browser_state \<Rightarrow> int \<Rightarrow> string \<Rightarrow> browser_state \<times> effect list" where
  "handleLoadFailed st errorCode errorDescription =
     (if authInProgress st then
        (st, [ConsoleLog ''Webview load failed:'', ConsoleLog ''Auth in progress, ignoring load error''])
      else if errorCode \<noteq> - 3 then
        (st\<lparr>title := ''Error loading page: '' @ errorDescription\<rparr>, [ConsoleLog ''Webview load failed:''])
      else (st, [ConsoleLog ''Webview load failed:'']))"

section \<open>The main process\<close>

text \<open>
  The module-level state of \<^verbatim>\<open>electron.js\<close>: the history list, the variable
  \<^verbatim>\<open>mainWindow\<close> (undefined until \<^verbatim>\<open>createWindow\<close> has run, then a window, which can be
  destroyed, and \<^verbatim>\<open>null\<close> once its \<^verbatim>\<open>closed\<close> listener has run), and which function the
  property \<^verbatim>\<open>shell.openExternal\<close> holds: Electron's own, or the stub the start-up
  listeners assign. \<open>mainWindowAlive\<close> is the test
  \<^verbatim>\<open>mainWindow && !mainWindow.isDestroyed()\<close>.
\<close>

datatype shell_impl = ElectronOpenExternal | BlockedOpenExternal

datatype main_window = WindowUndefined | WindowOpen | WindowDestroyed | WindowNull

record main_state =
  urlHistory :: "history_entry list"
  mainWindow :: main_window
  shellOpenExternal :: shell_impl

definition mainWindowAlive :: "main_state \<Rightarrow> bool" where
  "mainWindowAlive ms = (mainWindow ms = WindowOpen)"

datatype window_action = Deny | Allow

datatype promise = Resolved

text \<open>
  \<^verbatim>\<open>mainSession.webRequest.onBeforeRedirect\<close>. The listener logs, then calls
  \<^verbatim>\<open>url.parse\<close> outside any \<^verbatim>\<open>try\<close>: when the parser throws, the exception leaves the
  listener after the first log.
\<close>

definition onBeforeRedirect ::
  "url_parse_fn \<Rightarrow> main_state \<Rightarrow> string \<Rightarrow> effect list \<times> unit outcome" where
  "onBeforeRedirect url_parse ms redirectUrl =
     (case url_parse redirectUrl of
        Inl err \<Rightarrow> ([ConsoleLog ''Redirect detected:''], Raised err)
      | Inr query \<Rightarrow>
          if (js_includes redirectUrl ''auth'' \<or>
              js_includes redirectUrl ''oauth'' \<or>
              js_includes redirectUrl ''signin'' \<or>
              js_includes redirectUrl ''login'' \<or>
              js_includes redirectUrl ''sso'' \<or>
              js_includes redirectUrl ''callback'') \<and>
             (truthy (query_prop query ''token'') \<or> truthy (query_prop query ''code'') \<or>
              truthy (query_prop query ''access_token''))
          then
            ([ConsoleLog ''Redirect detected:'', ConsoleLog ''OAuth redirect detected:''] @
             (if mainWindowAlive ms then [WebContentsSend ''handle-auth-redirect'' redirectUrl]
              else []),
             Returned ())
          else ([ConsoleLog ''Redirect detected:''], Returned ()))"

text \<open>
  The \<^verbatim>\<open>will-navigate\<close> listener of \<^verbatim>\<open>web-contents-created\<close>: it only logs. It calls
  \<^verbatim>\<open>url.parse\<close> outside any \<^verbatim>\<open>try\<close> as well.
\<close>

definition contentsWillNavigate :: "url_parse_fn \<Rightarrow> string \<Rightarrow> effect list \<times> unit outcome" where
  "contentsWillNavigate url_parse navigateUrl =
     (case url_parse navigateUrl of
        Inl err \<Rightarrow> ([ConsoleLog ''Navigation in webview:''], Raised err)
      | Inr query \<Rightarrow>
          if (js_includes navigateUrl ''auth'' \<or>
              js_includes navigateUrl ''oauth'' \<or>
              js_includes navigateUrl ''signin'' \<or>
              js_includes navigateUrl ''login'' \<or>
              js_includes navigateUrl ''sso'' \<or>
              js_includes navigateUrl ''callback'') \<and>
             (truthy (query_prop query ''token'') \<or> truthy (query_prop query ''code'') \<or>
              truthy (query_prop query ''access_token''))
          then ([ConsoleLog ''Navigation in webview:'', ConsoleLog ''OAuth navigation detected:''],
                Returned ())
          else ([ConsoleLog ''Navigation in webview:''], Returned ()))"

text \<open>
  \<^verbatim>\<open>contents.setWindowOpenHandler\<close>: the two tests are joined by \<^verbatim>\<open>||\<close> here. When
  \<^verbatim>\<open>url.parse\<close> throws, the handler is left before the dialog, the message and the
  \<^verbatim>\<open>return\<close>; otherwise it returns the action \<^verbatim>\<open>deny\<close>.
\<close>

definition externalBrowserDisabled :: effect where
  "externalBrowserDisabled =
     ShowMessageBox ''External Browser Disabled''
       ''External browser opening has been disabled. Please use the embedded browser only.''"

definition setWindowOpenHandler ::
  "url_parse_fn \<Rightarrow> main_state \<Rightarrow> string \<Rightarrow> effect list \<times> window_action outcome" where
  "setWindowOpenHandler url_parse ms openUrl =
     (case url_parse openUrl of
        Inl err \<Rightarrow> ([ConsoleLog ''Attempted to open new window:''], Raised err)
      | Inr query \<Rightarrow>
          if (js_includes openUrl ''auth'' \<or>
              js_includes openUrl ''login'' \<or>
              js_includes openUrl ''sso'' \<or>
              js_includes openUrl ''oauth'' \<or>
              js_includes openUrl ''signin'' \<or>
              js_includes openUrl ''callback'') \<or>
             (truthy (query_prop query ''token'') \<or> truthy (query_prop query ''code'') \<or>
              truthy (query_prop query ''access_token''))
          then
            (ConsoleLog ''Attempted to open new window:'' #
               (if mainWindowAlive ms then [WebContentsSend ''handle-auth-redirect'' openUrl]
                else []),
             Returned Deny)
          else ([ConsoleLog ''Attempted to open new window:'', externalBrowserDisabled],
                Returned Deny))"

text \<open>
  The \<^verbatim>\<open>ipcMain.on\<close> listeners that take a history entry or a URL. The file registers
  listeners with \<^verbatim>\<open>ipcMain.on\<close> only, for \<^verbatim>\<open>log-url-opened\<close>, \<^verbatim>\<open>open-batch\<close>,
  \<^verbatim>\<open>download-pdf\<close> and \<^verbatim>\<open>open-external\<close>; a message on any other channel has no
  listener.
\<close>

definition ipcLogUrlOpened :: "main_state \<Rightarrow> history_entry \<Rightarrow> main_state \<times> effect list" where
  "ipcLogUrlOpened ms data =
     (ms\<lparr>urlHistory := urlHistory ms @ [data]\<rparr>, [ConsoleLog ''URL opened:''])"

definition ipcOpenBatch :: "effect list" where
  "ipcOpenBatch =
     [ShowMessageBox ''In-App Browser Only''
        ''Please use the embedded browser to view URLs. External browser windows have been disabled.'']"

definition ipcOpenExternal :: "string \<Rightarrow> effect list" where
  "ipcOpenExternal u = [externalBrowserDisabled]"

text \<open>
  A call \<^verbatim>\<open>shell.openExternal(u)\<close> made in the main process runs whatever function the
  property holds at that moment. Electron's own function hands the URL to the desktop's
  default application; the stub logs and returns \<^verbatim>\<open>Promise.resolve()\<close>.
\<close>

definition shell_openExternal :: "main_state \<Rightarrow> string \<Rightarrow> effect list \<times> promise" where
  "shell_openExternal ms u =
     (case shellOpenExternal ms of
        ElectronOpenExternal \<Rightarrow> ([LaunchExternalBrowser u], Resolved)
      | BlockedOpenExternal \<Rightarrow>
          ([ConsoleLog ''Blocked attempt to open external browser with URL:''], Resolved))"

text \<open>
  The events the main process listens to, and a call of \<^verbatim>\<open>shell.openExternal\<close> from
  any place in it. \<open>main_step\<close> runs the listeners of one event: \<^verbatim>\<open>will-finish-launching\<close>
  assigns the stub, \<^verbatim>\<open>ready\<close> assigns it again and creates the window, \<^verbatim>\<open>closed\<close>
  sets \<^verbatim>\<open>mainWindow\<close> to null, \<^verbatim>\<open>activate\<close> creates a window when \<^verbatim>\<open>mainWindow\<close> is
  null. What a listener did before an exception left it stays done; the exception is
  recorded after it.
\<close>

datatype main_event =
    AppWillFinishLaunching
  | AppReady
  | WindowClosed
  | AppActivate
  | BeforeRedirect string
  | ContentsWillNavigate string
  | WindowOpenRequest string
  | IpcLogUrlOpened history_entry
  | IpcOpenBatch
  | IpcOpenExternal string
  | CallShellOpenExternal string

definition effects_of :: "effect list \<times> 'a outcome \<Rightarrow> effect list" where
  "effects_of r =
     (case snd r of Returned x \<Rightarrow> fst r | Raised err \<Rightarrow> fst r @ [UncaughtException err])"

fun main_step :: "url_parse_fn \<Rightarrow> main_state \<Rightarrow> main_event \<Rightarrow> main_state \<times> effect list" where
  "main_step url_parse ms AppWillFinishLaunching =
     (ms\<lparr>shellOpenExternal := BlockedOpenExternal\<rparr>, [])"
| "main_step url_parse ms AppReady =
     (ms\<lparr>shellOpenExternal := BlockedOpenExternal, mainWindow := WindowOpen\<rparr>, [])"
| "main_step url_parse ms WindowClosed = (ms\<lparr>mainWindow := WindowNull\<rparr>, [])"
| "main_step url_parse ms AppActivate =
     (if mainWindow ms = WindowNull then ms\<lparr>mainWindow := WindowOpen\<rparr> else ms, [])"
| "main_step url_parse ms (BeforeRedirect u) = (ms, effects_of (onBeforeRedirect url_parse ms u))"
| "main_step url_parse ms (ContentsWillNavigate u) = (ms, effects_of (contentsWillNavigate url_parse u))"
| "main_step url_parse ms (WindowOpenRequest u) = (ms, effects_of (setWindowOpenHandler url_parse ms u))"
| "main_step url_parse ms (IpcLogUrlOpened data) = ipcLogUrlOpened ms data"
| "main_step url_parse ms IpcOpenBatch = (ms, ipcOpenBatch)"
| "main_step url_parse ms (IpcOpenExternal u) = (ms, ipcOpenExternal u)"
| "main_step url_parse ms (CallShellOpenExternal u) = (ms, fst (shell_openExternal ms u))"

fun main_run :: "url_parse_fn \<Rightarrow> main_state \<Rightarrow> main_event list \<Rightarrow> main_state \<times> effect list" where
  "main_run url_parse ms [] = (ms, [])"
| "main_run url_parse ms (e # es) =
     (let (ms1, effs1) = main_step url_parse ms e; (ms2, effs2) = main_run url_parse ms1 es
      in (ms2, effs1 @ effs2))"

text \<open>The state when the module has been loaded and no event has arrived yet.\<close>

definition main_init :: main_state where
  "main_init =
     \<lparr>urlHistory = [], mainWindow = WindowUndefined, shellOpenExternal = ElectronOpenExternal\<rparr>"

section \<open>Messages from the component to the main process\<close>

text \<open>
  \<^verbatim>\<open>ipcRenderer.send(channel, data)\<close> reaches the \<^verbatim>\<open>ipcMain.on\<close> listener of that channel.
  Of the effects a component handler returns, only the \<^verbatim>\<open>log-url-opened\<close> messages
  change the main process's state.
\<close>

fun deliver :: "main_state \<Rightarrow> effect list \<Rightarrow> main_state" where
  "deliver ms [] = ms"
| "deliver ms (IpcSend channel data # effs) =
     (if channel = ''log-url-opened'' then deliver (fst (ipcLogUrlOpened ms data)) effs
      else deliver ms effs)"
| "deliver ms (e # effs) = deliver ms effs"

text \<open>
  One navigation of the embedded view that has come to its end. The engine reports a
  failed load with \<^verbatim>\<open>did-fail-load\<close> and a successful one with \<^verbatim>\<open>did-finish-load\<close>, and
  in both cases \<^verbatim>\<open>did-stop-loading\<close> when it stops; the component's listeners run in
  that order, and their messages are delivered to the main process.
\<close>

datatype load_outcome = LoadSucceeded | LoadFailed int string

record navigation =
  navWebview :: webview
  navTime :: string
  navOutcome :: load_outcome

record app =
  mainProcess :: main_state
  browser :: browser_state

definition complete_navigation ::
  "url_ctor_fn \<Rightarrow> component_props \<Rightarrow> app \<Rightarrow> navigation \<Rightarrow> app" where
  "complete_navigation newURL props a nav =
     (let (st1, effs1) =
            (case navOutcome nav of
               LoadSucceeded \<Rightarrow> handleDidFinishLoad props (navWebview nav) (browser a)
             | LoadFailed errorCode errorDescription \<Rightarrow>
                 handleLoadFailed (browser a) errorCode errorDescription);
          (st2, effs2) = handleDidStopLoading newURL props (navWebview nav) (navTime nav) st1
      in \<lparr>mainProcess = deliver (mainProcess a) (effs1 @ effs2), browser = st2\<rparr>)"

fun complete_navigations ::
  "url_ctor_fn \<Rightarrow> component_props \<Rightarrow> app \<Rightarrow> navigation list \<Rightarrow> app" where
  "complete_navigations newURL props a [] = a"
| "complete_navigations newURL props a (nav # navs) =
     complete_navigations newURL props (complete_navigation newURL props a nav) navs"

definition entry_of :: "component_props \<Rightarrow> navigation \<Rightarrow> history_entry" where
  "entry_of props nav =
     \<lparr>url = getURL (navWebview nav), timestamp = navTime nav, batchId = propBatchId props\<rparr>"

section \<open>The history view\<close>

text \<open>
  \<^verbatim>\<open>loadHistory\<close> of \<^verbatim>\<open>UrlHistory.js\<close> asks the main process with
  \<^verbatim>\<open>ipcRenderer.invoke('get-opened-urls')\<close>. An \<^verbatim>\<open>invoke\<close> is answered by the handler that
  \<^verbatim>\<open>ipcMain.handle\<close> registered for the channel; \<^verbatim>\<open>electron.js\<close> never calls
  \<^verbatim>\<open>ipcMain.handle\<close>, so the promise is rejected whatever the channel and whatever the
  main process holds. \<^verbatim>\<open>loadHistory\<close> catches the rejection and logs it. Outside
  Electron the component shows two sample entries.
\<close>

datatype ipc_error = NoHandlerRegistered string

definition ipcRenderer_invoke :: "main_state \<Rightarrow> string \<Rightarrow> ipc_error + history_entry list" where
  "ipcRenderer_invoke ms channel = Inl (NoHandlerRegistered channel)"

record history_view =
  shownHistory :: "history_entry list"
  historyIsLoading :: bool

definition history_view_init :: history_view where
  "history_view_init = \<lparr>shownHistory = [], historyIsLoading = True\<rparr>"

definition loadHistory :: "bool \<Rightarrow> string \<Rightarrow> string \<Rightarrow> main_state \<Rightarrow> history_view \<Rightarrow> history_view \<times> effect list" where
  "loadHistory isElectron now hourAgo ms v =
     (if isElectron then
        (case ipcRenderer_invoke ms ''get-opened-urls'' of
           Inr history \<Rightarrow> (v\<lparr>shownHistory := history, historyIsLoading := False\<rparr>, [])
         | Inl e \<Rightarrow> (v\<lparr>historyIsLoading := False\<rparr>, [ConsoleError ''Failed to load URL history:'']))
      else
        (v\<lparr>shownHistory :=
              [\<lparr>url = ''https://app.fieldnation.com/workorders/sample1'', timestamp = now,
                batchId = Some 1\<rparr>,
               \<lparr>url = ''https://app.fieldnation.com/workorders/sample2'', timestamp = hourAgo,
                batchId = Some 1\<rparr>],
            historyIsLoading := False\<rparr>, []))"

section \<open>Models of the two parsers\<close>

text \<open>
  The concrete instances below need a parser to run. These are models of the two library
  parsers, used only there; no theorem about all URLs rests on them.

  Node's \<^verbatim>\<open>url.parse(u, true)\<close>: it trims white space at both ends and turns the
  backslashes before the first \<^verbatim>\<open>?\<close> or \<^verbatim>\<open>#\<close> into slashes. When the text has a host
  part (after \<^verbatim>\<open>//\<close>, or after a protocol that is not one of the slashed ones), the text
  up to the last \<^verbatim>\<open>@\<close> before the first \<^verbatim>\<open>/\<close>, \<^verbatim>\<open>?\<close> or \<^verbatim>\<open>#\<close> is the user-info part,
  which it decodes with \<^verbatim>\<open>decodeURIComponent\<close>: that throws a \<^verbatim>\<open>URIError\<close> on a
  \<^verbatim>\<open>%\<close> that is not followed by two hex digits and on escaped bytes that are not
  well-formed UTF-8. Otherwise the query object is \<^verbatim>\<open>querystring.parse\<close> of the text
  between the first \<^verbatim>\<open>?\<close> and the first \<^verbatim>\<open>#\<close>. (Recent versions of Node also throw on
  some host names; that is not modelled.)
\<close>

definition is_ws :: "char \<Rightarrow> bool" where
  "is_ws c = ((of_char c :: int) < 33)"

definition trim_ws :: "string \<Rightarrow> string" where
  "trim_ws s = rev (dropWhile is_ws (rev (dropWhile is_ws s)))"

text \<open>
  The query object of a text: \<^verbatim>\<open>querystring.parse\<close> of what stands between the first
  \<^verbatim>\<open>?\<close> and the first \<^verbatim>\<open>#\<close>. It is what \<^verbatim>\<open>url.parse(u, true).query\<close> holds when the
  parser does not throw; whether it throws is decided in \<open>node_url_parse\<close> below.
\<close>

definition url_parse_query :: "string \<Rightarrow> query_object" where
  "url_parse_query u =
     (case dropWhile (\<lambda>c. c \<noteq> CHR ''?'') (takeWhile (\<lambda>c. c \<noteq> CHR ''#'') (trim_ws u)) of
        [] \<Rightarrow> []
      | q # qs \<Rightarrow> querystring_parse qs)"

datatype uri_token = Plain char | Octet int | BadEscape

fun uri_tokens :: "string \<Rightarrow> uri_token list" where
  "uri_tokens (c # h # l # cs) =
     (if c = CHR ''%'' then
        (case (hex_digit h, hex_digit l) of
           (Some a, Some b) \<Rightarrow> Octet (16 * a + b) # uri_tokens cs
         | _ \<Rightarrow> [BadEscape])
      else Plain c # uri_tokens (h # l # cs))"
| "uri_tokens [c, h] = (if c = CHR ''%'' then [BadEscape] else Plain c # uri_tokens [h])"
| "uri_tokens [c] = (if c = CHR ''%'' then [BadEscape] else [Plain c])"
| "uri_tokens [] = []"

text \<open>
  The ranges of the bytes that must follow a leading byte of a UTF-8 sequence, or
  \<open>None\<close> for a byte that cannot lead one.
\<close>

definition utf8_continuations :: "int \<Rightarrow> (int \<times> int) list option" where
  "utf8_continuations b =
     (if 194 \<le> b \<and> b \<le> 223 then Some [(128, 191)]
      else if b = 224 then Some [(160, 191), (128, 191)]
      else if (225 \<le> b \<and> b \<le> 236) \<or> b = 238 \<or> b = 239 then Some [(128, 191), (128, 191)]
      else if b = 237 then Some [(128, 159), (128, 191)]
      else if b = 240 then Some [(144, 191), (128, 191), (128, 191)]
      else if 241 \<le> b \<and> b \<le> 243 then Some [(128, 191), (128, 191), (128, 191)]
      else if b = 244 then Some [(128, 143), (128, 191), (128, 191)]
      else None)"

fun tokens_decodable :: "(int \<times> int) list \<Rightarrow> uri_token list \<Rightarrow> bool" where
  "tokens_decodable [] [] = True"
| "tokens_decodable (r # rs) [] = False"
| "tokens_decodable rs (BadEscape # ts) = False"
| "tokens_decodable [] (Plain c # ts) = tokens_decodable [] ts"
| "tokens_decodable (r # rs) (Plain c # ts) = False"
| "tokens_decodable [] (Octet b # ts) =
     (if b < 128 then tokens_decodable [] ts
      else (case utf8_continuations b of
              None \<Rightarrow> False
            | Some rs \<Rightarrow> tokens_decodable rs ts))"
| "tokens_decodable (r # rs) (Octet b # ts) =
     (fst r \<le> b \<and> b \<le> snd r \<and> tokens_decodable rs ts)"

definition ascii_lower :: "char \<Rightarrow> char" where
  "ascii_lower c =
     (let n = (of_char c :: int) in if 65 \<le> n \<and> n \<le> 90 then char_of (n + 32) else c)"

definition is_alpha :: "char \<Rightarrow> bool" where
  "is_alpha c =
     (let n = (of_char c :: int) in (65 \<le> n \<and> n \<le> 90) \<or> (97 \<le> n \<and> n \<le> 122))"

definition is_digit :: "char \<Rightarrow> bool" where
  "is_digit c = (let n = (of_char c :: int) in 48 \<le> n \<and> n \<le> 57)"

definition is_scheme_char :: "char \<Rightarrow> bool" where
  "is_scheme_char c =
     (is_alpha c \<or> is_digit c \<or> c = CHR ''+'' \<or> c = CHR ''-'' \<or> c = CHR ''.'')"

text \<open>
  Whether \<^verbatim>\<open>decodeURIComponent\<close> accepts a text: every \<^verbatim>\<open>%\<close> starts an escape of two
  hex digits, and the escaped bytes of 128 and above form well-formed UTF-8 sequences,
  each byte of them escaped.
\<close>

definition uri_decodable :: "string \<Rightarrow> bool" where
  "uri_decodable s = tokens_decodable [] (uri_tokens s)"

text \<open>\<^verbatim>\<open>/^[a-z0-9.+-]+:/i\<close>: the protocol with its colon, as written.\<close>

definition node_protocol :: "string \<Rightarrow> string option" where
  "node_protocol s =
     (let p = takeWhile is_scheme_char s in
      case dropWhile is_scheme_char s of
        [] \<Rightarrow> None
      | d # ds \<Rightarrow> if p \<noteq> [] \<and> d = CHR '':'' then Some (p @ '':'') else None)"

text \<open>\<^verbatim>\<open>/^\/\/[^@/]+@[^@/]+/\<close>.\<close>

definition node_host_pattern :: "string \<Rightarrow> bool" where
  "node_host_pattern s =
     (take 2 s = ''//'' \<and>
      (let r = drop 2 s;
           a = takeWhile (\<lambda>c. c \<noteq> CHR ''@'' \<and> c \<noteq> CHR ''/'') r
       in a \<noteq> [] \<and>
          (case dropWhile (\<lambda>c. c \<noteq> CHR ''@'' \<and> c \<noteq> CHR ''/'') r of
             at # b # bs \<Rightarrow> at = CHR ''@'' \<and> b \<noteq> CHR ''@'' \<and> b \<noteq> CHR ''/''
           | _ \<Rightarrow> False)))"

definition slashedProtocol :: "string list" where
  "slashedProtocol = [''http:'', ''https:'', ''ftp:'', ''gopher:'', ''file:'', ''ws:'', ''wss:'']"

definition is_split_char :: "char \<Rightarrow> bool" where
  "is_split_char c = (c = CHR ''?'' \<or> c = CHR ''#'')"

text \<open>
  The user-info text that \<^verbatim>\<open>url.parse\<close> decodes, if the text has one. \<^verbatim>\<open>javascript:\<close>
  is the protocol that never has a host.
\<close>

definition node_url_auth :: "string \<Rightarrow> string option" where
  "node_url_auth u =
     (let t = trim_ws u;
          rest0 = map (\<lambda>c. if c = CHR 0x5C then CHR ''/'' else c)
                    (takeWhile (\<lambda>c. \<not> is_split_char c) t) @
                  dropWhile (\<lambda>c. \<not> is_split_char c) t;
          proto = node_protocol rest0;
          rest1 = (case proto of None \<Rightarrow> rest0 | Some p \<Rightarrow> drop (length p) rest0);
          hostless = (case proto of None \<Rightarrow> False | Some p \<Rightarrow> map ascii_lower p = ''javascript:'');
          slashes = ((proto \<noteq> None \<or> node_host_pattern rest1) \<and> take 2 rest1 = ''//'');
          rest2 = (if slashes \<and> \<not> hostless then drop 2 rest1 else rest1)
      in
      if \<not> hostless \<and>
         (slashes \<or> (case proto of None \<Rightarrow> False | Some p \<Rightarrow> p \<notin> set slashedProtocol))
      then
        (let authority =
               takeWhile (\<lambda>c. c \<noteq> CHR ''/'' \<and> c \<noteq> CHR ''?'' \<and> c \<noteq> CHR ''#'') rest2
         in case dropWhile (\<lambda>c. c \<noteq> CHR ''@'') (rev authority) of
              [] \<Rightarrow> None
            | at # user \<Rightarrow> Some (rev user))
      else None)"

definition node_url_parse :: url_parse_fn where
  "node_url_parse u =
     (case node_url_auth u of
        None \<Rightarrow> Inr (url_parse_query u)
      | Some auth \<Rightarrow> if uri_decodable auth then Inr (url_parse_query u) else Inl URIError)"

text \<open>
  The WHATWG constructor \<^verbatim>\<open>new URL(s)\<close>, without a base: it strips white space at both
  ends and every tab and line break, and throws a \<^verbatim>\<open>TypeError\<close> when the text has no
  scheme, when the host is missing, when the host has a forbidden character, or when the
  port is not a number up to 65535. \<^verbatim>\<open>search\<close> is \<^verbatim>\<open>?\<close> and the percent-encoded text
  between the first \<^verbatim>\<open>?\<close> and the first \<^verbatim>\<open>#\<close>, \<^verbatim>\<open>hash\<close> is \<^verbatim>\<open>#\<close> and the
  percent-encoded text after the first \<^verbatim>\<open>#\<close>, each the empty string when that text is
  empty. (The constructor checks numeric and bracketed addresses and internationalised
  names further, and treats \<^verbatim>\<open>file:\<close> on its own; that is not modelled.)
\<close>

definition is_tab_or_newline :: "char \<Rightarrow> bool" where
  "is_tab_or_newline c = ((of_char c :: int) = 9 \<or> (of_char c :: int) = 10 \<or> (of_char c :: int) = 13)"

definition url_scheme :: "string \<Rightarrow> string option" where
  "url_scheme s =
     (case s of
        [] \<Rightarrow> None
      | c # cs \<Rightarrow>
          (case dropWhile is_scheme_char cs of
             [] \<Rightarrow> None
           | d # ds \<Rightarrow>
               if is_alpha c \<and> d = CHR '':''
               then Some (map ascii_lower (c # takeWhile is_scheme_char cs))
               else None))"

definition special_schemes :: "string list" where
  "special_schemes = [''ftp'', ''file'', ''http'', ''https'', ''ws'', ''wss'']"

definition hex_char :: "int \<Rightarrow> char" where
  "hex_char n = (if n < 10 then char_of (48 + n) else char_of (55 + n))"

definition percent_encode :: "(char \<Rightarrow> bool) \<Rightarrow> string \<Rightarrow> string" where
  "percent_encode in_set s =
     concat (map (\<lambda>c. if in_set c
                       then [CHR ''%'', hex_char ((of_char c :: int) div 16),
                             hex_char ((of_char c :: int) mod 16)]
                       else [c]) s)"

definition in_query_set :: "bool \<Rightarrow> char \<Rightarrow> bool" where
  "in_query_set special c =
     (let n = (of_char c :: int) in
      n < 32 \<or> n > 126 \<or> n = 32 \<or> n = 34 \<or> n = 35 \<or> n = 60 \<or> n = 62 \<or> (special \<and> n = 39))"

definition in_fragment_set :: "char \<Rightarrow> bool" where
  "in_fragment_set c =
     (let n = (of_char c :: int) in
      n < 32 \<or> n > 126 \<or> n = 32 \<or> n = 34 \<or> n = 60 \<or> n = 62 \<or> n = 96)"

definition forbidden_host_char :: "char \<Rightarrow> bool" where
  "forbidden_host_char c =
     ((of_char c :: int) \<in> set [0, 9, 10, 13, 32, 35, 47, 58, 60, 62, 63, 64, 91, 92, 93, 94, 124])"

definition forbidden_domain_char :: "char \<Rightarrow> bool" where
  "forbidden_domain_char c =
     (forbidden_host_char c \<or> (of_char c :: int) < 32 \<or> c = CHR ''%'' \<or> (of_char c :: int) = 127)"

definition port_ok :: "string \<Rightarrow> bool" where
  "port_ok p =
     (list_all is_digit p \<and>
      foldl (\<lambda>n c. 10 * n + ((of_char c :: int) - 48)) (0 :: int) p \<le> 65535)"

text \<open>
  The host and port of an authority (the text after the slashes, up to the path):
  what follows the last \<^verbatim>\<open>@\<close> is the host, up to its first \<^verbatim>\<open>:\<close> outside brackets, and
  the port after it.
\<close>

definition host_port_ok :: "bool \<Rightarrow> string \<Rightarrow> bool" where
  "host_port_ok special authority =
     (let credentials = (CHR ''@'' \<in> set authority);
          hp = rev (takeWhile (\<lambda>c. c \<noteq> CHR ''@'') (rev authority))
      in
      case hp of
        [] \<Rightarrow> \<not> special \<and> \<not> credentials
      | c # cs \<Rightarrow>
          if c = CHR ''['' then
            (case dropWhile (\<lambda>d. d \<noteq> CHR '']'') hp of
               [] \<Rightarrow> False
             | close # after \<Rightarrow>
                 (case after of
                    [] \<Rightarrow> True
                  | d # p \<Rightarrow> d = CHR '':'' \<and> port_ok p))
          else
            (let host = takeWhile (\<lambda>d. d \<noteq> CHR '':'') hp;
                 port = drop 1 (dropWhile (\<lambda>d. d \<noteq> CHR '':'') hp)
             in host \<noteq> [] \<and> port_ok port \<and>
                (if special then \<not> list_ex forbidden_domain_char (percent_decode host)
                 else \<not> list_ex forbidden_host_char host)))"

definition authority_ok :: "string \<Rightarrow> string \<Rightarrow> bool" where
  "authority_ok scheme r =
     (if scheme = ''file'' then True
      else if scheme \<in> set special_schemes then
        host_port_ok True
          (takeWhile (\<lambda>c. c \<noteq> CHR ''/'' \<and> c \<noteq> CHR 0x5C)
             (dropWhile (\<lambda>c. c = CHR ''/'' \<or> c = CHR 0x5C) r))
      else if take 2 r = ''//'' then
        host_port_ok False (takeWhile (\<lambda>c. c \<noteq> CHR ''/'') (drop 2 r))
      else True)"

definition whatwg_URL :: url_ctor_fn where
  "whatwg_URL s =
     (let input = filter (\<lambda>c. \<not> is_tab_or_newline c) (trim_ws s) in
      case url_scheme input of
        None \<Rightarrow> Inl TypeError
      | Some scheme \<Rightarrow>
          (let rest = drop (length scheme + 1) input;
               beforeHash = takeWhile (\<lambda>c. c \<noteq> CHR ''#'') rest;
               q = drop 1 (dropWhile (\<lambda>c. c \<noteq> CHR ''?'') beforeHash);
               f = drop 1 (dropWhile (\<lambda>c. c \<noteq> CHR ''#'') rest)
           in
           if \<not> authority_ok scheme (takeWhile (\<lambda>c. c \<noteq> CHR ''?'') beforeHash) then Inl TypeError
           else
             Inr \<lparr>search =
                    (if q = [] then []
                     else CHR ''?'' # percent_encode (in_query_set (scheme \<in> set special_schemes)) q),
                  hash = (if f = [] then [] else CHR ''#'' # percent_encode in_fragment_set f)\<rparr>))"

section \<open>The classification as the specification words it\<close>

text \<open>
  The specification's single classifier: a URL is auth-related when it contains one of
  six keywords and one of its query parameters is named \<^verbatim>\<open>token\<close>, \<^verbatim>\<open>code\<close> or
  \<^verbatim>\<open>access_token\<close>. The query parameters are the pairs of the query string.
\<close>

definition spec_keywords :: "string list" where
  "spec_keywords = [''auth'', ''oauth'', ''signin'', ''login'', ''sso'', ''callback'']"

definition spec_param_names :: "string list" where
  "spec_param_names = [''token'', ''code'', ''access_token'']"

definition spec_has_keyword :: "string \<Rightarrow> bool" where
  "spec_has_keyword u = list_ex (js_includes u) spec_keywords"

definition has_named_param :: "query_object \<Rightarrow> bool" where
  "has_named_param q = list_ex (\<lambda>name. name \<in> set (map fst q)) spec_param_names"

definition spec_has_param :: "string \<Rightarrow> bool" where
  "spec_has_param u = has_named_param (url_parse_query u)"

definition spec_isAuthRelated :: "string \<Rightarrow> bool" where
  "spec_isAuthRelated u = (spec_has_keyword u \<and> spec_has_param u)"

text \<open>
  What the main process tests instead of the mere presence of a name: the property of
  the query object that \<^verbatim>\<open>url.parse\<close> returned is truthy, that is, the parameter has a
  non-empty value or occurs more than once.
\<close>

definition has_truthy_param :: "query_object \<Rightarrow> bool" where
  "has_truthy_param q = list_ex (\<lambda>name. truthy (query_prop q name)) spec_param_names"

text \<open>
  What the completed-load check of the component tests: the words it looks for in the
  final URL before it parses it, and whether the object the constructor returned
  delivers a result, that is, \<^verbatim>\<open>get\<close> (the value of the first parameter of that name)
  gives a non-empty string for \<^verbatim>\<open>token\<close>, \<^verbatim>\<open>code\<close> or \<^verbatim>\<open>access_token\<close> among the query
  parameters, or for \<^verbatim>\<open>access_token\<close> among the parameters of the fragment.
\<close>

definition mentions_auth_word :: "string \<Rightarrow> bool" where
  "mentions_auth_word u =
     list_ex (js_includes u) [''callback'', ''token'', ''auth'', ''code'', ''access_token'']"

definition search_params :: "url_object \<Rightarrow> (string \<times> string) list" where
  "search_params obj = URLSearchParams (search obj)"

definition hash_params :: "url_object \<Rightarrow> (string \<times> string) list" where
  "hash_params obj = URLSearchParams (drop 1 (hash obj))"

definition query_result :: "url_object \<Rightarrow> bool" where
  "query_result obj =
     list_ex (\<lambda>name. truthy (params_get (search_params obj) name)) spec_param_names"

definition fragment_result :: "url_object \<Rightarrow> bool" where
  "fragment_result obj = truthy (params_get (hash_params obj) ''access_token'')"

definition delivers_auth_result :: "url_ctor_fn \<Rightarrow> string \<Rightarrow> bool" where
  "delivers_auth_result newURL u =
     (case newURL u of
        Inl e \<Rightarrow> False
      | Inr obj \<Rightarrow> query_result obj \<or> fragment_result obj)"

section \<open>Sample inputs\<close>

text \<open>The concrete states and inputs at which the theorems below are instantiated.\<close>

definition sample_idle :: browser_state where
  "sample_idle =
     \<lparr>currentUrl = ''https://example.com/'', title = ''Home'', isLoading = False,
      canGoBack = False, canGoForward = False, isWebviewReady = True, authInProgress = False\<rparr>"

definition sample_pending :: browser_state where
  "sample_pending =
     \<lparr>currentUrl = ''https://example.com/login'', title = ''Sign in'', isLoading = True,
      canGoBack = False, canGoForward = False, isWebviewReady = True, authInProgress = True\<rparr>"

definition sample_webview :: "string \<Rightarrow> webview" where
  "sample_webview u =
     \<lparr>getURL = u, getTitle = ''Example'', webviewCanGoBack = True, webviewCanGoForward = False,
      hasLoadURL = True, loadURLThrows = False\<rparr>"

definition sample_props :: component_props where
  "sample_props = \<lparr>propBatchId = Some 1, hasOnNavigate = False\<rparr>"

definition sample_main :: main_state where
  "sample_main = \<lparr>urlHistory = [], mainWindow = WindowOpen, shellOpenExternal = BlockedOpenExternal\<rparr>"

definition sample_time :: string where
  "sample_time = ''2024-01-01T00:00:00.000Z''"

definition sample_entry :: history_entry where
  "sample_entry = \<lparr>url = ''https://example.com/'', timestamp = sample_time, batchId = Some 1\<rparr>"

section \<open>Facts about the library functions\<close>

lemma js_includes_iff: "js_includes s pat \<longleftrightarrow> (\<exists>pre suf. s = pre @ pat @ suf)"
proof (induction s)
  case Nil
  then show ?case by auto
next
  case (Cons c cs)
  show ?case
  proof
    assume "js_includes (c # cs) pat"
    then consider "take (length pat) (c # cs) = pat" | "js_includes cs pat" by auto
    then show "\<exists>pre suf. c # cs = pre @ pat @ suf"
    proof cases
      case 1
      then have "c # cs = [] @ pat @ drop (length pat) (c # cs)"
        by (metis append_Nil append_take_drop_id)
      then show ?thesis by blast
    next
      case 2
      then obtain pre suf where "cs = pre @ pat @ suf" using Cons.IH by blast
      then have "c # cs = (c # pre) @ pat @ suf" by simp
      then show ?thesis by blast
    qed
  next
    assume "\<exists>pre suf. c # cs = pre @ pat @ suf"
    then obtain pre suf where eq: "c # cs = pre @ pat @ suf" by blast
    show "js_includes (c # cs) pat"
    proof (cases pre)
      case Nil
      then have "take (length pat) (c # cs) = pat" using eq by simp
      then show ?thesis by simp
    next
      case (Cons p ps)
      then have "cs = ps @ pat @ suf" using eq by simp
      then have "js_includes cs pat" using Cons.IH by blast
      then show ?thesis by simp
    qed
  qed
qed

lemma query_prop_truthy_named:
  assumes "truthy (query_prop q name)"
  shows "name \<in> set (map fst q)"
proof -
  have "filter (\<lambda>p. fst p = name) q \<noteq> []"
  proof
    assume "filter (\<lambda>p. fst p = name) q = []"
    then have "query_prop q name = Undefined" by (simp add: query_prop_def)
    with assms show False by simp
  qed
  then obtain p where "p \<in> set q" "fst p = name"
    by (metis (mono_tags, lifting) filter_False)
  then show ?thesis by force
qed

lemma has_truthy_param_named: "has_truthy_param q \<Longrightarrow> has_named_param q"
  unfolding has_truthy_param_def has_named_param_def spec_param_names_def
  by (auto dest: query_prop_truthy_named)

lemma truthy_params_get:
  "truthy (params_get ps name) \<longleftrightarrow> (\<exists>v. map_of ps name = Some v \<and> v \<noteq> [])"
  by (cases "map_of ps name") (simp_all add: params_get_def)

section \<open>The test at each call site of the main process\<close>

lemma redirect_site_test:
  assumes "url_parse u = Inr q"
  shows "(ConsoleLog ''OAuth redirect detected:'' \<in> set (fst (onBeforeRedirect url_parse ms u))
            \<longleftrightarrow> spec_has_keyword u \<and> has_truthy_param q) \<and>
         snd (onBeforeRedirect url_parse ms u) = Returned ()"
  using assms
  by (auto simp: onBeforeRedirect_def spec_has_keyword_def has_truthy_param_def
      spec_keywords_def spec_param_names_def)

lemma will_navigate_site_test:
  assumes "url_parse u = Inr q"
  shows "(ConsoleLog ''OAuth navigation detected:'' \<in> set (fst (contentsWillNavigate url_parse u))
            \<longleftrightarrow> spec_has_keyword u \<and> has_truthy_param q) \<and>
         snd (contentsWillNavigate url_parse u) = Returned ()"
  using assms
  by (auto simp: contentsWillNavigate_def spec_has_keyword_def has_truthy_param_def
      spec_keywords_def spec_param_names_def)

lemma window_open_site_test:
  assumes "url_parse u = Inr q"
  shows "externalBrowserDisabled \<notin> set (fst (setWindowOpenHandler url_parse ms u))
           \<longleftrightarrow> spec_has_keyword u \<or> has_truthy_param q"
  using assms
  by (auto simp: setWindowOpenHandler_def spec_has_keyword_def has_truthy_param_def
      spec_keywords_def spec_param_names_def externalBrowserDisabled_def)

lemma window_open_denies:
  assumes "url_parse u = Inr q"
  shows "snd (setWindowOpenHandler url_parse ms u) = Returned Deny"
  using assms by (simp add: setWindowOpenHandler_def)

lemma window_open_forwards:
  assumes "url_parse u = Inr q" and "spec_has_keyword u \<or> has_truthy_param q"
  shows "fst (setWindowOpenHandler url_parse ms u) =
           ConsoleLog ''Attempted to open new window:'' #
             (if mainWindowAlive ms then [WebContentsSend ''handle-auth-redirect'' u] else [])"
  using assms
  by (auto simp: setWindowOpenHandler_def spec_has_keyword_def has_truthy_param_def
      spec_keywords_def spec_param_names_def)

lemma window_open_blocks:
  assumes "url_parse u = Inr q" and "\<not> (spec_has_keyword u \<or> has_truthy_param q)"
  shows "fst (setWindowOpenHandler url_parse ms u) =
           [ConsoleLog ''Attempted to open new window:'', externalBrowserDisabled]"
  using assms
  by (auto simp: setWindowOpenHandler_def spec_has_keyword_def has_truthy_param_def
      spec_keywords_def spec_param_names_def)

lemma new_window_listener_ignores:
  assumes "\<not> spec_has_keyword u"
  shows "fst (handleNewWindow wv st u) = st \<and> LoadURL u \<notin> set (snd (handleNewWindow wv st u))"
  using assms
  by (auto simp: handleNewWindow_def Let_def spec_has_keyword_def spec_keywords_def)

lemma auth_redirect_loads:
  assumes "isWebviewReady st" and "hasLoadURL wv"
  shows "LoadURL u \<in> set (snd (handleAuthRedirect (Some wv) st u)) \<and>
         session_of (fst (handleAuthRedirect (Some wv) st u)) = AuthPending"
  using assms by (simp add: handleAuthRedirect_def Let_def session_of_def)

text \<open>
  When \<^verbatim>\<open>url.parse\<close> throws, each of the three listeners is left by the exception
  after its first log: nothing is classified, sent, shown or returned.
\<close>

lemma main_listeners_raise:
  assumes "url_parse u = Inl err"
  shows "onBeforeRedirect url_parse ms u = ([ConsoleLog ''Redirect detected:''], Raised err) \<and>
         contentsWillNavigate url_parse u = ([ConsoleLog ''Navigation in webview:''], Raised err) \<and>
         setWindowOpenHandler url_parse ms u
           = ([ConsoleLog ''Attempted to open new window:''], Raised err)"
  using assms
  by (simp add: onBeforeRedirect_def contentsWillNavigate_def setWindowOpenHandler_def)

text \<open>
  The component's completed-load check catches the constructor's exception: the state is
  the old one with \<open>isLoading\<close> reset, and the history message is sent as for any load.
\<close>

lemma completed_load_parse_failure_caught:
  assumes "newURL (getURL wv) = Inl err"
  shows "fst (handleDidStopLoading newURL props wv now st) = st\<lparr>isLoading := False\<rparr> \<and>
         last (snd (handleDidStopLoading newURL props wv now st)) =
           IpcSend ''log-url-opened''
             \<lparr>url = getURL wv, timestamp = now, batchId = propBatchId props\<rparr>"
  using assms by (simp add: handleDidStopLoading_def Let_def)

section \<open>Classification at the main process's call sites\<close>

text \<open>
  C1, as the code has it. Let \<^verbatim>\<open>url.parse\<close> return a query object for the URL (whatever
  parser it is). Then all three listeners of the main process return normally. The
  redirect listener and the will-navigate listener take the URL for an OAuth one exactly
  when it contains one of the six keywords and one of the properties \<^verbatim>\<open>token\<close>,
  \<^verbatim>\<open>code\<close>, \<^verbatim>\<open>access_token\<close> of the query object is truthy (a non-empty value, or the
  name repeated). The window-open handler joins the two tests by "or": it shows the
  blocking dialog exactly when the URL has neither a keyword nor such a parameter. A
  truthy parameter is a parameter of that name.
\<close>

theorem main_process_classification:
  assumes "url_parse u = Inr q"
  shows
    "(ConsoleLog ''OAuth redirect detected:'' \<in> set (fst (onBeforeRedirect url_parse ms u))
        \<longleftrightarrow> spec_has_keyword u \<and> has_truthy_param q) \<and>
     (ConsoleLog ''OAuth navigation detected:'' \<in> set (fst (contentsWillNavigate url_parse u))
        \<longleftrightarrow> spec_has_keyword u \<and> has_truthy_param q) \<and>
     (externalBrowserDisabled \<notin> set (fst (setWindowOpenHandler url_parse ms u))
        \<longleftrightarrow> spec_has_keyword u \<or> has_truthy_param q) \<and>
     snd (onBeforeRedirect url_parse ms u) = Returned () \<and>
     snd (contentsWillNavigate url_parse u) = Returned () \<and>
     snd (setWindowOpenHandler url_parse ms u) = Returned Deny \<and>
     (has_truthy_param q \<longrightarrow> has_named_param q)"
  using assms redirect_site_test [of url_parse u q ms] will_navigate_site_test [of url_parse u q]
    window_open_site_test [of url_parse u q ms] window_open_denies [of url_parse u q ms]
    has_truthy_param_named [of q]
  by blast

theorem main_process_classification_witness:
  "node_url_parse ''https://example.com/callback?code=abc'' = Inr [(''code'', ''abc'')] \<and>
   node_url_parse ''https://example.com/callback'' = Inr [] \<and>
   ConsoleLog ''OAuth redirect detected:''
     \<in> set (fst (onBeforeRedirect node_url_parse sample_main
                   ''https://example.com/callback?code=abc'')) \<and>
   ConsoleLog ''OAuth redirect detected:''
     \<notin> set (fst (onBeforeRedirect node_url_parse sample_main ''https://example.com/callback'')) \<and>
   ConsoleLog ''OAuth navigation detected:''
     \<notin> set (fst (contentsWillNavigate node_url_parse ''https://example.com/callback''))"
proof -
  have p1: "node_url_parse ''https://example.com/callback?code=abc'' = Inr [(''code'', ''abc'')]"
    by code_simp
  have p2: "node_url_parse ''https://example.com/callback'' = Inr []" by code_simp
  have k: "spec_has_keyword ''https://example.com/callback?code=abc''" by code_simp
  have t: "has_truthy_param [(''code'', ''abc'')]" by code_simp
  have n: "\<not> has_truthy_param []" by code_simp
  from main_process_classification
      [of node_url_parse "''https://example.com/callback?code=abc''" "[(''code'', ''abc'')]"
        sample_main, OF p1]
    main_process_classification
      [of node_url_parse "''https://example.com/callback''" "[]" sample_main, OF p2]
    p1 p2 k t n
  show ?thesis by blast
qed

text \<open>
  The claim as stated fails at the window-open handler: a URL that contains
  \<^verbatim>\<open>callback\<close> and has no query string is forwarded to the embedded view as an
  authentication redirect, and no dialog is shown.
\<close>

theorem window_open_callback_counterexample:
  "setWindowOpenHandler node_url_parse sample_main ''https://example.com/callback''
     = ([ConsoleLog ''Attempted to open new window:'',
         WebContentsSend ''handle-auth-redirect'' ''https://example.com/callback''],
        Returned Deny) \<and>
   \<not> spec_isAuthRelated ''https://example.com/callback''"
  by code_simp

section \<open>Requests for a new window\<close>

text \<open>
  C2, as the code has it. Let \<^verbatim>\<open>url.parse\<close> return a query object for the URL. Then the
  window-open handler denies the window, whatever the state of the main process. When
  the URL contains a keyword or has a truthy parameter, it shows no dialog and, if the
  main window exists, sends the embedded view the instruction to load the URL, which
  the component's listener carries out on a ready webview. Otherwise it shows the
  "External Browser Disabled" dialog and sends nothing, and the component's own
  new-window listener leaves the state as it is and loads nothing.
\<close>

theorem window_open_policy:
  assumes "url_parse u = Inr q"
  shows "snd (setWindowOpenHandler url_parse ms u) = Returned Deny \<and>
    (spec_has_keyword u \<or> has_truthy_param q \<longrightarrow>
       fst (setWindowOpenHandler url_parse ms u) =
         ConsoleLog ''Attempted to open new window:'' #
           (if mainWindowAlive ms then [WebContentsSend ''handle-auth-redirect'' u] else []) \<and>
       (isWebviewReady st \<and> hasLoadURL wv \<longrightarrow>
          LoadURL u \<in> set (snd (handleAuthRedirect (Some wv) st u)))) \<and>
    (\<not> (spec_has_keyword u \<or> has_truthy_param q) \<longrightarrow>
       fst (setWindowOpenHandler url_parse ms u) =
         [ConsoleLog ''Attempted to open new window:'', externalBrowserDisabled] \<and>
       fst (handleNewWindow wv st u) = st \<and>
       LoadURL u \<notin> set (snd (handleNewWindow wv st u)))"
  using assms window_open_denies [of url_parse u q ms] window_open_forwards [of url_parse u q ms]
    window_open_blocks [of url_parse u q ms] new_window_listener_ignores [of u wv st]
    auth_redirect_loads [of st wv u]
  by blast

theorem window_open_policy_witness:
  "setWindowOpenHandler node_url_parse sample_main ''https://example.com/page''
     = ([ConsoleLog ''Attempted to open new window:'', externalBrowserDisabled], Returned Deny) \<and>
   setWindowOpenHandler node_url_parse (sample_main\<lparr>mainWindow := WindowNull\<rparr>)
       ''https://example.com/page''
     = ([ConsoleLog ''Attempted to open new window:'', externalBrowserDisabled], Returned Deny) \<and>
   fst (handleNewWindow (sample_webview ''https://example.com/'') sample_idle
          ''https://example.com/page'') = sample_idle \<and>
   setWindowOpenHandler node_url_parse sample_main ''https://example.com/login?token=xyz''
     = ([ConsoleLog ''Attempted to open new window:'',
         WebContentsSend ''handle-auth-redirect'' ''https://example.com/login?token=xyz''],
        Returned Deny) \<and>
   LoadURL ''https://example.com/login?token=xyz''
     \<in> set (snd (handleAuthRedirect (Some (sample_webview ''https://example.com/'')) sample_idle
          ''https://example.com/login?token=xyz''))"
proof -
  have p1: "node_url_parse ''https://example.com/page'' = Inr []" by code_simp
  have p2: "node_url_parse ''https://example.com/login?token=xyz'' = Inr [(''token'', ''xyz'')]"
    by code_simp
  have alive: "mainWindowAlive sample_main" by code_simp
  have closed: "\<not> mainWindowAlive (sample_main\<lparr>mainWindow := WindowNull\<rparr>)" by code_simp
  have page: "\<not> (spec_has_keyword ''https://example.com/page'' \<or> has_truthy_param [])"
    by code_simp
  have login: "spec_has_keyword ''https://example.com/login?token=xyz''" by code_simp
  have ready: "isWebviewReady sample_idle \<and> hasLoadURL (sample_webview ''https://example.com/'')"
    by code_simp
  from window_open_policy
      [of node_url_parse "''https://example.com/page''" "[]" sample_main sample_idle
        "sample_webview ''https://example.com/''", OF p1]
    window_open_policy
      [of node_url_parse "''https://example.com/page''" "[]"
        "sample_main\<lparr>mainWindow := WindowNull\<rparr>" sample_idle
        "sample_webview ''https://example.com/''", OF p1]
    window_open_policy
      [of node_url_parse "''https://example.com/login?token=xyz''" "[(''token'', ''xyz'')]"
        sample_main sample_idle "sample_webview ''https://example.com/''", OF p2]
    alive closed page login ready
  show ?thesis by (simp add: prod_eq_iff)
qed

text \<open>
  The claim as stated, with the specification's classifier, fails: a URL with a
  \<^verbatim>\<open>code\<close> parameter and no keyword is not auth-related, yet the handler shows no
  notice and forwards it, and the component's listener for that message leaves Idle.
\<close>

theorem window_open_parameter_counterexample:
  "\<not> spec_isAuthRelated ''https://example.com/page?code=abc'' \<and>
   setWindowOpenHandler node_url_parse sample_main ''https://example.com/page?code=abc''
     = ([ConsoleLog ''Attempted to open new window:'',
         WebContentsSend ''handle-auth-redirect'' ''https://example.com/page?code=abc''],
        Returned Deny) \<and>
   session_of sample_idle = Idle \<and>
   session_of (fst (handleAuthRedirect (Some (sample_webview ''https://example.com/'')) sample_idle
     ''https://example.com/page?code=abc'')) = AuthPending"
  by code_simp

section \<open>From Idle to AuthPending\<close>

text \<open>
  C3, as the code has it. In state Idle the component's will-navigate listener moves to
  AuthPending exactly when the URL contains one of \<^verbatim>\<open>oauth\<close>, \<^verbatim>\<open>auth\<close>, \<^verbatim>\<open>login\<close>,
  \<^verbatim>\<open>sso\<close>, and its new-window listener exactly when the URL contains one of \<^verbatim>\<open>auth\<close>,
  \<^verbatim>\<open>login\<close>, \<^verbatim>\<open>sso\<close>, \<^verbatim>\<open>oauth\<close>, \<^verbatim>\<open>callback\<close>; no query parameter is looked at. A
  new-window request for \<^verbatim>\<open>https://example.com/login?token=xyz\<close> moves to AuthPending and
  loads that URL in the current webview.
\<close>

theorem renderer_auth_pending_transitions:
  "(session_of st = Idle \<longrightarrow>
      (session_of (fst (handleWillNavigate st u)) = AuthPending
         \<longleftrightarrow> list_ex (js_includes u) [''oauth'', ''auth'', ''login'', ''sso''])) \<and>
   (session_of st = Idle \<longrightarrow>
      (session_of (fst (handleNewWindow wv st u)) = AuthPending
         \<longleftrightarrow> list_ex (js_includes u) [''auth'', ''login'', ''sso'', ''oauth'', ''callback''])) \<and>
   session_of (fst (handleNewWindow wv st ''https://example.com/login?token=xyz'')) = AuthPending \<and>
   (hasLoadURL wv \<longrightarrow>
      LoadURL ''https://example.com/login?token=xyz''
        \<in> set (snd (handleNewWindow wv st ''https://example.com/login?token=xyz'')))"
proof -
  have k: "js_includes ''https://example.com/login?token=xyz'' ''login''" by code_simp
  have 1: "session_of st = Idle \<Longrightarrow>
      (session_of (fst (handleWillNavigate st u)) = AuthPending
         \<longleftrightarrow> list_ex (js_includes u) [''oauth'', ''auth'', ''login'', ''sso''])"
    by (auto simp: handleWillNavigate_def Let_def session_of_def split: if_splits)
  have 2: "session_of st = Idle \<Longrightarrow>
      (session_of (fst (handleNewWindow wv st u)) = AuthPending
         \<longleftrightarrow> list_ex (js_includes u) [''auth'', ''login'', ''sso'', ''oauth'', ''callback''])"
    by (auto simp: handleNewWindow_def Let_def session_of_def split: if_splits)
  have 3: "session_of (fst (handleNewWindow wv st ''https://example.com/login?token=xyz'')) = AuthPending"
    using k by (simp add: handleNewWindow_def Let_def session_of_def del: js_includes.simps)
  have 4: "hasLoadURL wv \<Longrightarrow>
      LoadURL ''https://example.com/login?token=xyz''
        \<in> set (snd (handleNewWindow wv st ''https://example.com/login?token=xyz''))"
    using k by (simp add: handleNewWindow_def Let_def del: js_includes.simps)
  from 1 2 3 4 show ?thesis by blast
qed

theorem renderer_auth_pending_transitions_witness:
  "session_of (fst (handleWillNavigate sample_idle ''https://example.com/sso/start'')) = AuthPending \<and>
   session_of (fst (handleWillNavigate sample_idle ''https://example.com/callback?code=abc'')) = Idle \<and>
   session_of (fst (handleNewWindow (sample_webview ''https://example.com/'') sample_idle
     ''https://example.com/callback?code=abc'')) = AuthPending \<and>
   LoadURL ''https://example.com/login?token=xyz''
     \<in> set (snd (handleNewWindow (sample_webview ''https://example.com/'') sample_idle
          ''https://example.com/login?token=xyz''))"
proof -
  have idle: "session_of sample_idle = Idle" by code_simp
  have has: "hasLoadURL (sample_webview ''https://example.com/'')" by code_simp
  have a: "list_ex (js_includes ''https://example.com/sso/start'') [''oauth'', ''auth'', ''login'', ''sso'']"
    by code_simp
  have b: "\<not> list_ex (js_includes ''https://example.com/callback?code=abc'')
               [''oauth'', ''auth'', ''login'', ''sso'']"
    by code_simp
  have c: "list_ex (js_includes ''https://example.com/callback?code=abc'')
               [''auth'', ''login'', ''sso'', ''oauth'', ''callback'']"
    by code_simp
  have d: "session_of (fst (handleWillNavigate sample_idle ''https://example.com/callback?code=abc''))
             \<noteq> AuthPending
           \<Longrightarrow> session_of (fst (handleWillNavigate sample_idle ''https://example.com/callback?code=abc''))
             = Idle"
    by (cases "session_of (fst (handleWillNavigate sample_idle ''https://example.com/callback?code=abc''))")
      auto
  from renderer_auth_pending_transitions [of sample_idle "''https://example.com/sso/start''"
      "sample_webview ''https://example.com/''"]
    renderer_auth_pending_transitions [of sample_idle "''https://example.com/callback?code=abc''"
      "sample_webview ''https://example.com/''"]
    idle has a b c d
  show ?thesis by blast
qed

text \<open>
  The claim as stated fails: a will-navigate event for a URL with the keyword
  \<^verbatim>\<open>login\<close> and no parameter at all, which the keyword-and-parameter classifier
  rejects, moves the state from Idle to AuthPending.
\<close>

theorem will_navigate_keyword_only_counterexample:
  "session_of sample_idle = Idle \<and>
   session_of (fst (handleWillNavigate sample_idle ''https://example.com/login'')) = AuthPending \<and>
   \<not> spec_isAuthRelated ''https://example.com/login''"
  by code_simp

section \<open>From AuthPending back to Idle\<close>

text \<open>
  C4, as the code has it. In state AuthPending a completed load moves the state to Idle
  exactly when the final URL contains one of the words the listener looks for, the URL
  constructor (whatever it is) returns an object for it, and that object delivers a
  result: the first query parameter named \<^verbatim>\<open>code\<close>, or the first named \<^verbatim>\<open>token\<close>, or
  the first named \<^verbatim>\<open>access_token\<close> has a non-empty value, or the first parameter named
  \<^verbatim>\<open>access_token\<close> in the fragment has one.
\<close>

theorem auth_pending_cleared_iff:
  assumes "session_of st = AuthPending"
  shows "(session_of (fst (handleDidStopLoading newURL props wv now st)) = Idle
           \<longleftrightarrow> mentions_auth_word (getURL wv) \<and> delivers_auth_result newURL (getURL wv)) \<and>
         (delivers_auth_result newURL (getURL wv)
           \<longleftrightarrow> (\<exists>obj. newURL (getURL wv) = Inr obj \<and>
                 ((\<exists>v. map_of (search_params obj) ''code'' = Some v \<and> v \<noteq> []) \<or>
                  (\<exists>v. map_of (search_params obj) ''token'' = Some v \<and> v \<noteq> []) \<or>
                  (\<exists>v. map_of (search_params obj) ''access_token'' = Some v \<and> v \<noteq> []) \<or>
                  (\<exists>v. map_of (hash_params obj) ''access_token'' = Some v \<and> v \<noteq> []))))"
proof -
  from assms have a: "authInProgress st" by (simp add: session_of_def split: if_splits)
  have i: "session_of (fst (handleDidStopLoading newURL props wv now st)) = Idle
           \<longleftrightarrow> mentions_auth_word (getURL wv) \<and> delivers_auth_result newURL (getURL wv)"
  proof (cases "newURL (getURL wv)")
    case (Inl e)
    with a show ?thesis
      by (simp add: handleDidStopLoading_def Let_def session_of_def delivers_auth_result_def)
  next
    case (Inr obj)
    with a show ?thesis
      by (auto simp: handleDidStopLoading_def Let_def session_of_def delivers_auth_result_def
          mentions_auth_word_def search_params_def hash_params_def spec_param_names_def
          query_result_def fragment_result_def)
  qed
  have d: "delivers_auth_result newURL (getURL wv)
           \<longleftrightarrow> (\<exists>obj. newURL (getURL wv) = Inr obj \<and>
                 ((\<exists>v. map_of (search_params obj) ''code'' = Some v \<and> v \<noteq> []) \<or>
                  (\<exists>v. map_of (search_params obj) ''token'' = Some v \<and> v \<noteq> []) \<or>
                  (\<exists>v. map_of (search_params obj) ''access_token'' = Some v \<and> v \<noteq> []) \<or>
                  (\<exists>v. map_of (hash_params obj) ''access_token'' = Some v \<and> v \<noteq> [])))"
  proof (cases "newURL (getURL wv)")
    case (Inl e)
    then show ?thesis by (simp add: delivers_auth_result_def)
  next
    case (Inr obj)
    then show ?thesis
      by (auto simp: delivers_auth_result_def query_result_def fragment_result_def
          spec_param_names_def truthy_params_get)
  qed
  from i d show ?thesis by blast
qed

theorem auth_pending_cleared_iff_witness:
  "session_of sample_pending = AuthPending \<and>
   whatwg_URL ''https://example.com/done?access_token=zzz''
     = Inr \<lparr>search = ''?access_token=zzz'', hash = []\<rparr> \<and>
   session_of (fst (handleDidStopLoading whatwg_URL sample_props
      (sample_webview ''https://example.com/done?access_token=zzz'') sample_time sample_pending)) = Idle \<and>
   session_of (fst (handleDidStopLoading whatwg_URL sample_props
      (sample_webview ''https://example.com/done?code=&code=abc'') sample_time sample_pending))
     = AuthPending"
proof -
  have p: "session_of sample_pending = AuthPending" by code_simp
  have o: "whatwg_URL ''https://example.com/done?access_token=zzz''
             = Inr \<lparr>search = ''?access_token=zzz'', hash = []\<rparr>" by code_simp
  have u: "getURL (sample_webview ''https://example.com/done?access_token=zzz'')
             = ''https://example.com/done?access_token=zzz''"
    by (simp add: sample_webview_def)
  have u2: "getURL (sample_webview ''https://example.com/done?code=&code=abc'')
             = ''https://example.com/done?code=&code=abc''"
    by (simp add: sample_webview_def)
  have m: "mentions_auth_word ''https://example.com/done?access_token=zzz''" by code_simp
  have d: "delivers_auth_result whatwg_URL ''https://example.com/done?access_token=zzz''"
    by code_simp
  have d2: "\<not> delivers_auth_result whatwg_URL ''https://example.com/done?code=&code=abc''"
    by code_simp
  have s: "\<And>x. x \<noteq> Idle \<Longrightarrow> x = AuthPending"
    by (metis session.exhaust)
  have i1: "session_of (fst (handleDidStopLoading whatwg_URL sample_props
      (sample_webview ''https://example.com/done?access_token=zzz'') sample_time sample_pending)) = Idle"
    using auth_pending_cleared_iff [OF p, of whatwg_URL sample_props
      "sample_webview ''https://example.com/done?access_token=zzz''" sample_time] u m d
    by simp
  have i2: "session_of (fst (handleDidStopLoading whatwg_URL sample_props
      (sample_webview ''https://example.com/done?code=&code=abc'') sample_time sample_pending)) \<noteq> Idle"
    using auth_pending_cleared_iff [OF p, of whatwg_URL sample_props
      "sample_webview ''https://example.com/done?code=&code=abc''" sample_time] u2 d2
    by simp
  from p o i1 s [OF i2] show ?thesis by simp
qed

text \<open>
  The claim as stated fails: the final URL \<^verbatim>\<open>https://example.com/done?code=\<close> has a
  parameter named \<^verbatim>\<open>code\<close>, and the state stays AuthPending, because the value is the
  empty string.
\<close>

theorem empty_code_counterexample:
  "spec_has_param ''https://example.com/done?code='' \<and>
   whatwg_URL ''https://example.com/done?code='' = Inr \<lparr>search = ''?code='', hash = []\<rparr> \<and>
   session_of sample_pending = AuthPending \<and>
   session_of (fst (handleDidStopLoading whatwg_URL sample_props
      (sample_webview ''https://example.com/done?code='') sample_time sample_pending)) = AuthPending"
  by code_simp

section \<open>Load failures\<close>

text \<open>
  C5. A load failure while the session is AuthPending changes nothing the user sees and
  leaves the state as it is. While Idle, the failure description is put into the title,
  except for the aborted load (code \<open>-3\<close>), which is suppressed in every state. In no
  case does the session state change.
\<close>

theorem handleLoadFailed_policy:
  "(session_of st = AuthPending \<longrightarrow> fst (handleLoadFailed st code desc) = st) \<and>
   (session_of st = Idle \<and> code \<noteq> - 3 \<longrightarrow>
      title (fst (handleLoadFailed st code desc)) = ''Error loading page: '' @ desc) \<and>
   (code = - 3 \<longrightarrow> fst (handleLoadFailed st code desc) = st) \<and>
   session_of (fst (handleLoadFailed st code desc)) = session_of st"
  by (simp add: handleLoadFailed_def session_of_def)

theorem handleLoadFailed_policy_witness:
  "fst (handleLoadFailed sample_pending (- 3) ''ERR_ABORTED'') = sample_pending \<and>
   fst (handleLoadFailed sample_pending (- 105) ''ERR_NAME_NOT_RESOLVED'') = sample_pending \<and>
   title (fst (handleLoadFailed sample_idle (- 105) ''ERR_NAME_NOT_RESOLVED''))
     = ''Error loading page: ERR_NAME_NOT_RESOLVED'' \<and>
   fst (handleLoadFailed sample_idle (- 3) ''ERR_ABORTED'') = sample_idle"
proof -
  have p: "session_of sample_pending = AuthPending" by code_simp
  have i: "session_of sample_idle = Idle" by code_simp
  have c: "(- 105 :: int) \<noteq> - 3" by simp
  from handleLoadFailed_policy [of sample_pending "- 3" "''ERR_ABORTED''"]
    handleLoadFailed_policy [of sample_pending "- 105" "''ERR_NAME_NOT_RESOLVED''"]
    handleLoadFailed_policy [of sample_idle "- 105" "''ERR_NAME_NOT_RESOLVED''"]
    handleLoadFailed_policy [of sample_idle "- 3" "''ERR_ABORTED''"] p i c
  show ?thesis by simp
qed

section \<open>The history list\<close>

lemma complete_navigation_history:
  "urlHistory (mainProcess (complete_navigation newURL props a nav))
     = urlHistory (mainProcess a) @ [entry_of props nav]"
proof (cases "navOutcome nav")
  case LoadSucceeded
  then show ?thesis
    by (simp add: complete_navigation_def handleDidFinishLoad_def handleDidStopLoading_def
        Let_def entry_of_def ipcLogUrlOpened_def split: sum.splits)
next
  case (LoadFailed errorCode errorDescription)
  then show ?thesis
    by (simp add: complete_navigation_def handleLoadFailed_def handleDidStopLoading_def
        Let_def entry_of_def ipcLogUrlOpened_def split: sum.splits)
qed

text \<open>
  C6. Every navigation that comes to its end, with a successful or a failed load, in
  whatever state the component is and whatever the URL constructor does, appends one
  entry to the main process's list: the webview's URL at that moment, the time just
  read, and the batch. After any sequence of navigations the list is the old list
  followed by one entry per navigation, in the order of the navigations; nothing is
  merged or dropped, so the length grows by the number of navigations.
\<close>

theorem history_appended_in_order:
  "urlHistory (mainProcess (complete_navigation newURL props a nav))
     = urlHistory (mainProcess a) @
         [\<lparr>url = getURL (navWebview nav), timestamp = navTime nav, batchId = propBatchId props\<rparr>] \<and>
   urlHistory (mainProcess (complete_navigations newURL props a navs))
     = urlHistory (mainProcess a) @ map (entry_of props) navs \<and>
   length (urlHistory (mainProcess (complete_navigations newURL props a navs)))
     = length (urlHistory (mainProcess a)) + length navs"
proof -
  have one: "urlHistory (mainProcess (complete_navigation newURL props a nav))
     = urlHistory (mainProcess a) @
         [\<lparr>url = getURL (navWebview nav), timestamp = navTime nav, batchId = propBatchId props\<rparr>]"
    using complete_navigation_history [of newURL props a nav] by (simp add: entry_of_def)
  have many: "urlHistory (mainProcess (complete_navigations newURL props a navs))
     = urlHistory (mainProcess a) @ map (entry_of props) navs"
    by (induction navs arbitrary: a) (simp_all add: complete_navigation_history)
  from one many show ?thesis by simp
qed

section \<open>The history query\<close>

text \<open>
  C7, evaluated on the code. After start-up and one \<^verbatim>\<open>log-url-opened\<close> message the main
  process holds one entry. The history view, mounted in Electron, asks for the list on
  the channel \<^verbatim>\<open>get-opened-urls\<close>, for which the main process has registered no
  handler: the request is rejected, and the view shows the empty list.
\<close>

theorem history_never_reaches_view:
  "urlHistory (fst (main_run node_url_parse main_init
       [AppWillFinishLaunching, AppReady, IpcLogUrlOpened sample_entry])) = [sample_entry] \<and>
   shownHistory (fst (loadHistory True sample_time sample_time
     (fst (main_run node_url_parse main_init
        [AppWillFinishLaunching, AppReady, IpcLogUrlOpened sample_entry]))
     history_view_init)) = []"
  by (simp add: main_init_def ipcLogUrlOpened_def loadHistory_def ipcRenderer_invoke_def
      history_view_init_def)

section \<open>URLs that do not parse\<close>

text \<open>
  C8, evaluated on the code. The user-info part of
  \<^verbatim>\<open>https://%E0%A4%A@example.com/callback?code=abc\<close> is not a decodable escape sequence
  (its third escape is cut off), so \<^verbatim>\<open>url.parse\<close> throws a \<^verbatim>\<open>URIError\<close> on it. None of the
  three listeners of the main process catches it: each is left by the exception after
  its first log, where the component's completed-load check catches the exception of its
  own parser (lemma \<open>completed_load_parse_failure_caught\<close>).
\<close>

theorem main_listeners_raise_on_undecodable_userinfo:
  "node_url_parse ''https://%E0%A4%A@example.com/callback?code=abc'' = Inl URIError \<and>
   onBeforeRedirect node_url_parse sample_main ''https://%E0%A4%A@example.com/callback?code=abc''
     = ([ConsoleLog ''Redirect detected:''], Raised URIError) \<and>
   contentsWillNavigate node_url_parse ''https://%E0%A4%A@example.com/callback?code=abc''
     = ([ConsoleLog ''Navigation in webview:''], Raised URIError) \<and>
   setWindowOpenHandler node_url_parse sample_main ''https://%E0%A4%A@example.com/callback?code=abc''
     = ([ConsoleLog ''Attempted to open new window:''], Raised URIError)"
proof -
  have p: "node_url_parse ''https://%E0%A4%A@example.com/callback?code=abc'' = Inl URIError"
    by code_simp
  from main_listeners_raise
      [of node_url_parse "''https://%E0%A4%A@example.com/callback?code=abc''" URIError
        sample_main, OF p] p
  show ?thesis by simp
qed

section \<open>Parameters in the fragment\<close>




section \<open>The external browser\<close>

lemma main_step_blocked:
  assumes "shellOpenExternal ms = BlockedOpenExternal"
  shows "shellOpenExternal (fst (main_step url_parse ms e)) = BlockedOpenExternal \<and>
         LaunchExternalBrowser u \<notin> set (snd (main_step url_parse ms e))"
  using assms
  by (cases e)
    (auto simp: onBeforeRedirect_def contentsWillNavigate_def setWindowOpenHandler_def
      ipcLogUrlOpened_def ipcOpenBatch_def ipcOpenExternal_def shell_openExternal_def
      externalBrowserDisabled_def effects_of_def split: sum.splits)

lemma main_run_blocked:
  assumes "shellOpenExternal ms = BlockedOpenExternal"
  shows "shellOpenExternal (fst (main_run url_parse ms es)) = BlockedOpenExternal \<and>
         LaunchExternalBrowser u \<notin> set (snd (main_run url_parse ms es))"
  using assms
proof (induction es arbitrary: ms)
  case Nil
  then show ?case by simp
next
  case (Cons e es)
  from main_step_blocked [OF Cons.prems, of url_parse e u]
  have s: "shellOpenExternal (fst (main_step url_parse ms e)) = BlockedOpenExternal"
    and n: "LaunchExternalBrowser u \<notin> set (snd (main_step url_parse ms e))" by auto
  from Cons.IH [OF s] n show ?case
    by (simp add: case_prod_beta Let_def)
qed

text \<open>
  C10. The first event of the application's start-up, \<^verbatim>\<open>will-finish-launching\<close> (and
  again \<^verbatim>\<open>ready\<close>), replaces \<^verbatim>\<open>shell.openExternal\<close> by the stub, and no listener ever
  assigns the property again. So whatever events follow, in whatever order, and with
  calls of \<^verbatim>\<open>shell.openExternal\<close> for any URL among them, no external browser is
  launched, and a call made after them only logs and returns a resolved promise.
\<close>

theorem openExternal_blocked_from_startup:
  "LaunchExternalBrowser u \<notin> set (snd (main_run url_parse ms (AppWillFinishLaunching # evs))) \<and>
   shell_openExternal (fst (main_run url_parse ms (AppWillFinishLaunching # evs))) v
     = ([ConsoleLog ''Blocked attempt to open external browser with URL:''], Resolved) \<and>
   LaunchExternalBrowser u \<notin> set (snd (main_run url_parse ms (AppReady # evs))) \<and>
   shell_openExternal (fst (main_run url_parse ms (AppReady # evs))) v
     = ([ConsoleLog ''Blocked attempt to open external browser with URL:''], Resolved)"
proof -
  have b1: "shellOpenExternal (fst (main_step url_parse ms AppWillFinishLaunching))
              = BlockedOpenExternal"
    by simp
  have b2: "shellOpenExternal (fst (main_step url_parse ms AppReady)) = BlockedOpenExternal"
    by simp
  from main_run_blocked [OF b1, of url_parse evs u] main_run_blocked [OF b2, of url_parse evs u]
  show ?thesis
    by (simp add: case_prod_beta Let_def shell_openExternal_def)
qed

end
